theory Spec2Isabelle
  imports Main
begin

section \<open>Strings as the server uses them\<close>

text \<open>
  A JavaScript string is modelled as a \<^typ>\<open>string\<close>, one \<^typ>\<open>char\<close> per code unit
  (code units above 255 are outside the model; none of them is a word character, a
  slash, a backslash or a dot, so none changes what the functions below decide).
\<close>

definition startsWith :: "string \<Rightarrow> string \<Rightarrow> bool" where
  "startsWith s p \<longleftrightarrow> take (length p) s = p"

definition endsWith :: "string \<Rightarrow> string \<Rightarrow> bool" where
  "endsWith s x \<longleftrightarrow> length x \<le> length s \<and> drop (length s - length x) s = x"

text \<open>
  \<^verbatim>\<open>s.substr(start, len)\<close> with \<open>start \<ge> 0\<close>: a length that is zero or negative gives
  the empty string, a start beyond the end gives the empty string.
\<close>

definition substr :: "string \<Rightarrow> nat \<Rightarrow> int \<Rightarrow> string" where
  "substr s start len = take (nat len) (drop start s)"

text \<open>\<^verbatim>\<open>s.replace(/\.js$/, '.ts')\<close>: the only place the pattern can match is the end.\<close>

definition replace_js_ext :: "string \<Rightarrow> string" where
  "replace_js_ext s = (if endsWith s ''.js'' then take (length s - 3) s @ ''.ts'' else s)"

text \<open>\<^verbatim>\<open>s.replace(/\\/g, '/')\<close>: every backslash (code unit 0x5C) becomes a slash.\<close>

definition replace_backslashes :: "string \<Rightarrow> string" where
  "replace_backslashes s = map (\<lambda>c. if c = CHR 0x5C then CHR ''/'' else c) s"

text \<open>The class \<^verbatim>\<open>\w\<close> of a regular expression without flags: \<^verbatim>\<open>[A-Za-z0-9_]\<close>.\<close>

definition is_word_char :: "char \<Rightarrow> bool" where
  "is_word_char c \<longleftrightarrow>
     (let n = (of_char c :: nat) in
      (48 \<le> n \<and> n \<le> 57) \<or> (65 \<le> n \<and> n \<le> 90) \<or> (97 \<le> n \<and> n \<le> 122) \<or> n = 95)"

text \<open>
  \<^verbatim>\<open>/Ptl(\w+)$/\<close> tried at the first position of \<open>s\<close>: the literal \<^verbatim>\<open>Ptl\<close>, then one or
  more word characters (greedy), then the end of the input. The group can only end where
  the input ends, so the attempt succeeds exactly when everything after the literal is a
  non-empty run of word characters.
\<close>

definition ptl_match :: "string \<Rightarrow> bool" where
  "ptl_match s \<longleftrightarrow> take 3 s = ''Ptl'' \<and> drop 3 s \<noteq> [] \<and> list_all is_word_char (drop 3 s)"

text \<open>
  \<^verbatim>\<open>s.replace(/Ptl(\w+)$/, '$1')\<close>: the engine tries the pattern at position 0, 1, 2, ...
  and replaces the first match (no \<^verbatim>\<open>g\<close> flag) by its group, that is, it drops the three
  characters of the literal there. Without a match the string is returned as it is.
\<close>

fun replace_ptl :: "string \<Rightarrow> string" where
  "replace_ptl [] = []"
| "replace_ptl (c # cs) = (if ptl_match (c # cs) then drop 3 (c # cs) else c # replace_ptl cs)"

section \<open>Protocol descriptors and path resolution\<close>

text \<open>The fields of \<^verbatim>\<open>TsrpcPtl\<close> that the server reads.\<close>

record tsrpc_ptl =
  filename :: string
  name :: string

text \<open>The options of \<^verbatim>\<open>ServerConfig\<close> that the dispatch pipeline reads.\<close>

record server_config =
  protocolPath :: string
  urlRootPath :: string
  hideApiPath :: bool
  showParamInvalidReason :: bool
  logRequestDetail :: bool

text \<open>\<^verbatim>\<open>throw new Error(msg)\<close> at registration time.\<close>

datatype error = Error string

text \<open>
  \<^verbatim>\<open>getPtlUrl\<close>. The length handed to \<^verbatim>\<open>substr\<close> is computed on integers, as the source
  does: it is negative when the root and the suffix overlap in the file name.
\<close>

definition getPtlUrl :: "server_config \<Rightarrow> tsrpc_ptl \<Rightarrow> error + string" where
  "getPtlUrl conf ptl =
     (let fname = replace_js_ext (filename ptl) in
      if \<not> startsWith fname (protocolPath conf) \<or> \<not> endsWith fname ''.ts''
      then Inl (Error (''Protocol is not in the protocolPath : '' @ fname))
      else Inr (replace_ptl (replace_backslashes
             (substr fname (length (protocolPath conf))
                (int (length fname) - int (length (protocolPath conf)) - 3)))))"

section \<open>Requests, responses and the registry\<close>

text \<open>Decoded payload values (what a JSON body decodes to).\<close>

datatype jsval =
  JNull
| JBool bool
| JNum int
| JStr string
| JArr "jsval list"
| JObj "(string \<times> jsval) list"

text \<open>
  Modelled from the spec: the type \<^verbatim>\<open>TsrpcReq\<close> of the decoded argument body is declared
  in the package \<^verbatim>\<open>tsrpc-protocol\<close>. The body is an object that may carry the reserved top-level
  field \<^verbatim>\<open>__tsrpc_url__\<close>, a string holding the target RPC path (the middleware below
  assigns it to \<^verbatim>\<open>req.rpcUrl\<close> and uses it as a registry key), beside any other members.
  \<open>tsrpc_url = None\<close> is a body without the reserved field; a member of any other name,
  \<^verbatim>\<open>__rpc_path__\<close> say, is one of \<open>members\<close>.
\<close>

record tsrpc_req =
  tsrpc_url :: "string option"
  members :: "(string \<times> jsval) list"

text \<open>
  Modelled from the spec: what \<^verbatim>\<open>ApiRequestExtend\<close> leaves on the request. \<open>args = None\<close>
  is a body that did not decode (\<^verbatim>\<open>req.args\<close> undefined); \<open>rpcUrl = None\<close> and
  \<open>rpcPtl = None\<close> are the properties not set yet.
\<close>

record api_request =
  url :: string
  path :: string
  body :: string
  reqId :: nat
  realIp :: string
  args :: "tsrpc_req option"
  rpcUrl :: "string option"
  rpcPtl :: "tsrpc_ptl option"

text \<open>
  What reaches the client: a success envelope, an error envelope (message and info), or a
  raw body under a status code (\<^verbatim>\<open>res.status(c).send(text)\<close>).
\<close>

datatype response_body =
  SuccEnvelope jsval
| ErrorEnvelope string jsval
| RawBody nat string


text \<open>
  The response: the pre-check error tag the addressing middleware may attach, and the
  payloads written so far, in order.
\<close>

record api_response =
  apiPreCheckError :: "(string \<times> string) option"
  sent :: "response_body list"

text \<open>
  Modelled from the spec: \<^verbatim>\<open>ApiResponseExtend\<close> defines the two writers of the response.
  \<^verbatim>\<open>res.succ(payload)\<close> serializes a success envelope, \<^verbatim>\<open>res.error(message, info)\<close> an
  error envelope containing the message and the info value. The model records each write;
  it fixes no precedence between several writes on one response.
\<close>

definition res_succ :: "jsval \<Rightarrow> api_response \<Rightarrow> api_response" where
  "res_succ payload res = res\<lparr>sent := sent res @ [SuccEnvelope payload]\<rparr>"

definition res_error :: "string \<Rightarrow> jsval \<Rightarrow> api_response \<Rightarrow> api_response" where
  "res_error msg info res = res\<lparr>sent := sent res @ [ErrorEnvelope msg info]\<rparr>"

text \<open>\<^verbatim>\<open>res.status(code).send(text)\<close> of the HTTP layer: the text goes out as it is.\<close>

definition res_send :: "nat \<Rightarrow> string \<Rightarrow> api_response \<Rightarrow> api_response" where
  "res_send code text res = res\<lparr>sent := sent res @ [RawBody code text]\<rparr>"

text \<open>
  A thrown value: a \<^verbatim>\<open>TsrpcError\<close> (message, info), an \<^verbatim>\<open>Error\<close> (message), or any other
  value. \<^verbatim>\<open>e instanceof TsrpcError\<close> holds for the first only.
\<close>

datatype thrown =
  TsrpcError string jsval
| JsError string
| Thrown jsval

fun is_TsrpcError :: "thrown \<Rightarrow> bool" where
  "is_TsrpcError (TsrpcError _ _) = True"
| "is_TsrpcError _ = False"

text \<open>Console output, server-side only.\<close>

datatype level = Log | Warn | Err

datatype logarg =
  LStr string
| LReqId nat
| LUrl "string option"
| LArgs "tsrpc_req option"
| LThrown thrown

text \<open>
  What the dispatcher does besides writing to the response: console lines, and the calls
  of the handler and of the three hooks.
\<close>

datatype event =
  Console level "logarg list"
| HandlerInvoked
| PtlNotFoundInvoked
| UnhandledInvoked
| CompleteInvoked

definition console_events :: "(level \<times> logarg list) list \<Rightarrow> event list" where
  "console_events ls = map (\<lambda>l. Console (fst l) (snd l)) ls"

text \<open>
  User code called with \<^verbatim>\<open>(req, res)\<close> (a handler, a hook): the request and response as it
  leaves them, the value it throws if it throws, and its console lines. A handler that
  answers later, from a timer, has written nothing when it returns.
\<close>

record effect =
  state :: "api_request \<times> api_response"
  raised :: "thrown option"
  logs :: "(level \<times> logarg list) list"

text \<open>The result of \<^verbatim>\<open>IValidator.validate\<close>, with the two fields of \<^verbatim>\<open>originalError\<close>.\<close>

record validate_result =
  isError :: bool
  fieldName :: string
  message :: string

record registration =
  protocol :: tsrpc_ptl
  handler :: "api_request \<times> api_response \<Rightarrow> effect"
  reqValidator :: "tsrpc_req \<Rightarrow> validate_result"

text \<open>
  The server: its configuration, the registry \<^verbatim>\<open>_implementedUrl\<close>, the handlers registered
  on \<^verbatim>\<open>_routerBeforeApiHandler\<close> (each returns the request and response as it leaves them and
  whether it called \<^verbatim>\<open>next()\<close>), and the three overridable hooks; \<open>onApiComplete = None\<close>
  is the hook left undefined, as it is unless the user sets it.
\<close>

record server =
  config :: server_config
  implementedUrl :: "string \<rightharpoonup> registration"
  routerBeforeApiHandler :: "(api_request \<times> api_response \<Rightarrow> (api_request \<times> api_response) \<times> bool) list"
  onPtlNotFound :: "api_request \<times> api_response \<Rightarrow> effect"
  onUnhandledApiError :: "thrown \<Rightarrow> api_request \<times> api_response \<Rightarrow> effect"
  onApiComplete :: "(api_request \<times> api_response \<Rightarrow> effect) option"

text \<open>The result of the final handler; \<open>uncaught\<close> is an exception that leaves it.\<close>

record outcome =
  final :: "api_request \<times> api_response"
  uncaught :: "thrown option"
  trace :: "event list"

section \<open>Registration\<close>

text \<open>
  \<^verbatim>\<open>implementPtl\<close>. \<open>getValidator\<close> stands for \<^verbatim>\<open>ValidatorManager.instance.getValidator\<close>
  of the validator library, called with the type name and the file name. The result is the
  updated server and the console lines, or the error of \<^verbatim>\<open>getPtlUrl\<close>.
\<close>

definition implementPtl ::
  "(string \<Rightarrow> string \<Rightarrow> tsrpc_req \<Rightarrow> validate_result) \<Rightarrow> server \<Rightarrow> tsrpc_ptl \<Rightarrow>
     (api_request \<times> api_response \<Rightarrow> effect) \<Rightarrow> error + server \<times> event list" where
  "implementPtl getValidator srv ptl h =
     (case getPtlUrl (config srv) ptl of
        Inl e \<Rightarrow> Inl e
      | Inr u \<Rightarrow>
          (let warn = (case implementedUrl srv u of
                         Some _ \<Rightarrow> [Console Warn
                            [LStr (''You are implementing a duplicated protocol: '' @ filename ptl),
                             LStr (''url='' @ u)]]
                       | None \<Rightarrow> []);
               v = getValidator (''Req'' @ name ptl) (replace_js_ext (filename ptl))
           in Inr (srv\<lparr>implementedUrl := (implementedUrl srv)
                        (u \<mapsto> \<lparr>protocol = ptl, handler = h, reqValidator = v\<rparr>)\<rparr>,
                   warn @ [Console Log [LStr ''Protocol registered succ: '', LStr u,
                                        LStr (filename ptl)]])))"

section \<open>The request pipeline\<close>

text \<open>Truthiness of a string property: undefined and the empty string are falsy.\<close>

fun truthy_string :: "string option \<Rightarrow> bool" where
  "truthy_string None = False"
| "truthy_string (Some s) = (s \<noteq> [])"

text \<open>The property key of \<^verbatim>\<open>this._implementedUrl[req.rpcUrl]\<close>.\<close>

fun url_key :: "string option \<Rightarrow> string" where
  "url_key None = ''undefined''"
| "url_key (Some u) = u"

definition set_apiPreCheckError ::
  "string \<Rightarrow> string \<Rightarrow> api_request \<times> api_response \<Rightarrow> api_request \<times> api_response" where
  "set_apiPreCheckError msg code rr = (fst rr, (snd rr)\<lparr>apiPreCheckError := Some (msg, code)\<rparr>)"

text \<open>
  The end of the addressing middleware, once \<^verbatim>\<open>req.rpcUrl\<close> is assigned: an empty path is
  an error, otherwise \<^verbatim>\<open>req.rpcPtl\<close> is the registered protocol or null.
\<close>

definition lookupRpcPtl ::
  "server \<Rightarrow> api_request \<times> api_response \<Rightarrow> api_request \<times> api_response" where
  "lookupRpcPtl srv rr =
     (if \<not> truthy_string (rpcUrl (fst rr))
      then set_apiPreCheckError ''Request cannot be resolved'' ''REQ_CANT_BE_RESOLVED'' rr
      else ((fst rr)\<lparr>rpcPtl :=
              (case implementedUrl srv (url_key (rpcUrl (fst rr))) of
                 Some ent \<Rightarrow> Some (protocol ent)
               | None \<Rightarrow> None)\<rparr>, snd rr))"

text \<open>
  The middleware commented \<^verbatim>\<open>Check if protocol registered\<close>: it resolves the RPC path under
  the configured addressing mode and tags the response instead of answering.
\<close>

definition checkProtocolRegistered ::
  "server \<Rightarrow> api_request \<times> api_response \<Rightarrow> api_request \<times> api_response" where
  "checkProtocolRegistered srv rr =
     (case args (fst rr) of
        None \<Rightarrow> rr
      | Some a \<Rightarrow>
          if hideApiPath (config srv) then
            (case tsrpc_url a of
               None \<Rightarrow>
                 set_apiPreCheckError
                   ''HideApiPath is enabled, set it to true too in your client config.''
                   ''REQ_CANT_BE_RESOLVED'' rr
             | Some u \<Rightarrow>
                 lookupRpcPtl srv
                   ((fst rr)\<lparr>args := Some (a\<lparr>tsrpc_url := None\<rparr>), rpcUrl := Some u\<rparr>, snd rr))
          else if truthy_string (tsrpc_url a) then
            set_apiPreCheckError
              ''HideApiPath is disabled, set it to false too in your client config.''
              ''REQ_CANT_BE_RESOLVED'' rr
          else if startsWith (path (fst rr)) (urlRootPath (config srv)) then
            lookupRpcPtl srv
              ((fst rr)\<lparr>rpcUrl :=
                  Some (''/'' @ drop (length (urlRootPath (config srv))) (path (fst rr)))\<rparr>, snd rr)
          else set_apiPreCheckError ''Invalid path'' ''INVALID_PATH'' rr)"

text \<open>
  \<^verbatim>\<open>_routerBeforeApiHandler\<close>: the user's handlers in the order of registration; the chain
  stops at the first one that does not call \<^verbatim>\<open>next()\<close>.
\<close>

fun run_router ::
  "(api_request \<times> api_response \<Rightarrow> (api_request \<times> api_response) \<times> bool) list \<Rightarrow>
     api_request \<times> api_response \<Rightarrow> (api_request \<times> api_response) \<times> bool" where
  "run_router [] rr = (rr, True)"
| "run_router (h # hs) rr = (if snd (h rr) then run_router hs (fst (h rr)) else (fst (h rr), False))"

text \<open>The two hooks as the class defines them.\<close>

definition default_onPtlNotFound :: "api_request \<times> api_response \<Rightarrow> effect" where
  "default_onPtlNotFound rr =
     \<lparr>state = (fst rr, res_error ''404 Not Found'' (JStr ''PTL_NOT_FOUND'') (snd rr)),
      raised = None, logs = []\<rparr>"

definition default_onUnhandledApiError :: "thrown \<Rightarrow> api_request \<times> api_response \<Rightarrow> effect" where
  "default_onUnhandledApiError err rr =
     \<lparr>state = (fst rr, res_error ''Internal Server Error'' (JStr ''UNHANDLED_API_ERROR'') (snd rr)),
      raised = None,
      logs = [(Err, [LUrl (rpcUrl (fst rr)), LArgs (args (fst rr)), LThrown err])]\<rparr>"

text \<open>\<^verbatim>\<open>this.onApiComplete && this.onApiComplete(req, res)\<close>, the last statement.\<close>

definition callOnApiComplete :: "server \<Rightarrow> api_request \<times> api_response \<Rightarrow> event list \<Rightarrow> outcome" where
  "callOnApiComplete srv rr tr =
     (case onApiComplete srv of
        None \<Rightarrow> \<lparr>final = rr, uncaught = None, trace = tr\<rparr>
      | Some f \<Rightarrow>
          \<lparr>final = state (f rr), uncaught = raised (f rr),
           trace = tr @ CompleteInvoked # console_events (logs (f rr))\<rparr>)"

text \<open>
  The \<^verbatim>\<open>try\<close>/\<^verbatim>\<open>catch\<close> around the awaited handler, given what the handler did, and the
  completion call after it. An exception of the unhandled-error hook leaves the
  \<^verbatim>\<open>catch\<close> block, so the completion call is not reached.
\<close>

definition catchHandler :: "server \<Rightarrow> effect \<Rightarrow> event list \<Rightarrow> outcome" where
  "catchHandler srv e tr =
     (case raised e of
        None \<Rightarrow> callOnApiComplete srv (state e) tr
      | Some (TsrpcError m i) \<Rightarrow>
          callOnApiComplete srv (fst (state e), res_error m i (snd (state e))) tr
      | Some x \<Rightarrow>
          (let u = onUnhandledApiError srv x (state e);
               tr' = tr @ UnhandledInvoked # console_events (logs u)
           in case raised u of
                Some y \<Rightarrow> \<lparr>final = state u, uncaught = Some y, trace = tr'\<rparr>
              | None \<Rightarrow> callOnApiComplete srv (state u) tr'))"

text \<open>
  The final handler, commented \<^verbatim>\<open>api handler (final router)\<close>. Reading a property of a
  missing registry entry throws a \<^verbatim>\<open>TypeError\<close>; nothing catches it, nor an exception of
  the not-found hook or of the completion hook.
\<close>

definition apiHandler :: "server \<Rightarrow> api_request \<times> api_response \<Rightarrow> outcome" where
  "apiHandler srv rr =
     (case args (fst rr) of
        None \<Rightarrow>
          \<lparr>final = (fst rr, res_send 400 ''Invalid Request Body'' (snd rr)), uncaught = None,
           trace = [Console Err [LStr ''Invalid Request Body'', LStr (url (fst rr)),
                                 LStr (body (fst rr))]]\<rparr>
      | Some a \<Rightarrow>
          (case apiPreCheckError (snd rr) of
             Some pe \<Rightarrow>
               \<lparr>final = (fst rr, res_error (fst pe) (JStr (snd pe)) (snd rr)), uncaught = None,
                trace = []\<rparr>
           | None \<Rightarrow>
               (case rpcPtl (fst rr) of
                  None \<Rightarrow>
                    (let n = onPtlNotFound srv rr
                     in \<lparr>final = state n, uncaught = raised n,
                         trace = PtlNotFoundInvoked # console_events (logs n)\<rparr>)
                | Some _ \<Rightarrow>
                    (let tr = [Console Log
                                 [LStr ''[ApiReq]'', LReqId (reqId (fst rr)), LUrl (rpcUrl (fst rr)),
                                  LStr (realIp (fst rr)),
                                  if logRequestDetail (config srv) then LArgs (args (fst rr))
                                  else LStr []]]
                     in case implementedUrl srv (url_key (rpcUrl (fst rr))) of
                          None \<Rightarrow> \<lparr>final = rr, uncaught = Some (JsError ''TypeError''), trace = tr\<rparr>
                        | Some ent \<Rightarrow>
                            (let v = reqValidator ent a in
                             if isError v then
                               (let detail = fieldName v @ '': '' @ message v;
                                    reason = (if showParamInvalidReason (config srv) then detail
                                              else ''Invalid Request Parameter'')
                                in \<lparr>final = (fst rr, res_error reason (JStr ''INVALID_REQ_PARAM'')
                                               (snd rr)),
                                    uncaught = None,
                                    trace = tr @ [Console Warn
                                      [LStr ''Invalid Request Parameter'', LUrl (rpcUrl (fst rr)),
                                       LStr detail]]\<rparr>)
                             else
                               catchHandler srv (handler ent rr)
                                 (tr @ HandlerInvoked # console_events (logs (handler ent rr))))))))"

text \<open>
  One request through the part of the chain defined by the server itself, starting from
  the request as the decoding middleware leaves it and a response with nothing written.
\<close>

definition fresh_response :: api_response where
  "fresh_response = \<lparr>apiPreCheckError = None, sent = []\<rparr>"

definition handleRequest :: "server \<Rightarrow> api_request \<Rightarrow> outcome" where
  "handleRequest srv req =
     (let r = run_router (routerBeforeApiHandler srv)
                (checkProtocolRegistered srv (req, fresh_response))
      in if snd r then apiHandler srv (fst r)
         else \<lparr>final = fst r, uncaught = None, trace = []\<rparr>)"

section \<open>The resolved path, as the specification words it\<close>

text \<open>
  The token \<^verbatim>\<open>Ptl\<close> occurs at index \<open>i\<close> of \<open>s\<close> and is followed by one or more word
  characters that extend to the end of \<open>s\<close>. Such an occurrence lies in the final path
  segment, since a slash is no word character.
\<close>

definition ptl_at :: "string \<Rightarrow> nat \<Rightarrow> bool" where
  "ptl_at s i \<longleftrightarrow>
     take 3 (drop i s) = ''Ptl'' \<and> i + 3 < length s \<and> list_all is_word_char (drop (i + 3) s)"

text \<open>Removing the token at the first such occurrence, and at the last one.\<close>

definition strip_ptl_first :: "string \<Rightarrow> string" where
  "strip_ptl_first s =
     (case find (ptl_at s) [0..<length s] of
        None \<Rightarrow> s
      | Some i \<Rightarrow> take i s @ drop (i + 3) s)"


text \<open>
  Every backslash of \<open>s\<close> replaced by a forward slash: the result has the length of \<open>s\<close>,
  a forward slash at each position where \<open>s\<close> has a backslash, and the character of \<open>s\<close>
  at every other position.
\<close>

definition forward_slashes :: "string \<Rightarrow> string" where
  "forward_slashes s =
     map (\<lambda>i. if s ! i = CHR 0x5C then CHR ''/'' else s ! i) [0..<length s]"

section \<open>Conditions on a request, as the specification words them\<close>

text \<open>
  None of the pre-dispatch terminal conditions holds for the request and response that
  reach the final handler: the body decoded, no pre-check error is pending, a protocol
  was resolved, the registry has the entry \<open>ent\<close> at the resolved path, and the decoded
  arguments pass its validator.
\<close>

definition reaches_handler :: "server \<Rightarrow> api_request \<times> api_response \<Rightarrow> registration \<Rightarrow> bool" where
  "reaches_handler srv rr ent \<longleftrightarrow>
     (case args (fst rr) of
        None \<Rightarrow> False
      | Some a \<Rightarrow>
          apiPreCheckError (snd rr) = None \<and> rpcPtl (fst rr) \<noteq> None \<and>
          implementedUrl srv (url_key (rpcUrl (fst rr))) = Some ent \<and>
          \<not> isError (reqValidator ent a))"

text \<open>
  After the handler did \<open>e\<close>, control reaches the completion call: the handler returned,
  or raised a typed error, or raised another error and the unhandled-error hook returned.
\<close>

definition completion_reached :: "server \<Rightarrow> effect \<Rightarrow> bool" where
  "completion_reached srv e \<longleftrightarrow>
     (case raised e of
        None \<Rightarrow> True
      | Some x \<Rightarrow> is_TsrpcError x \<or> raised (onUnhandledApiError srv x (state e)) = None)"




section \<open>A server with the Hello protocol\<close>

text \<open>
  \<^verbatim>\<open>new TsrpcServer(conf)\<close> without automatic implementation: the URL root gets its final
  slash, the registry and the router are empty, the hooks are the ones of the class.
\<close>

definition new_TsrpcServer :: "server_config \<Rightarrow> server" where
  "new_TsrpcServer conf =
     \<lparr>config = conf\<lparr>urlRootPath :=
          (if endsWith (urlRootPath conf) ''/'' then urlRootPath conf
           else urlRootPath conf @ ''/'')\<rparr>,
      implementedUrl = Map.empty,
      routerBeforeApiHandler = [],
      onPtlNotFound = default_onPtlNotFound,
      onUnhandledApiError = default_onUnhandledApiError,
      onApiComplete = None\<rparr>"

text \<open>\<^verbatim>\<open>req.args.name\<close> of a request that passed the validator below.\<close>

definition args_name :: "api_request \<Rightarrow> string option" where
  "args_name req =
     (case args req of
        None \<Rightarrow> None
      | Some a \<Rightarrow> (case map_of (members a) ''name'' of Some (JStr s) \<Rightarrow> Some s | _ \<Rightarrow> None))"

text \<open>
  \<^verbatim>\<open>ApiHelloWorld\<close> of the tests. With the name \<^verbatim>\<open>Delay\<close> it answers from a timer, after it
  has returned: nothing is written when it returns.
\<close>

definition ApiHelloWorld :: "api_request \<times> api_response \<Rightarrow> effect" where
  "ApiHelloWorld rr =
     (if args_name (fst rr) = Some ''Error''
      then \<lparr>state = rr, raised = Some (JsError ''Error''), logs = []\<rparr>
      else if args_name (fst rr) = Some ''TsrpcError''
      then \<lparr>state = rr, raised = Some (TsrpcError ''TsrpcError'' (JStr ''TsrpcError'')), logs = []\<rparr>
      else if args_name (fst rr) = Some ''Delay''
      then \<lparr>state = rr, raised = None, logs = []\<rparr>
      else \<lparr>state = (fst rr,
                res_succ (JObj [(''reply'', JStr (''Hello, '' @
                   (if truthy_string (args_name (fst rr)) then the (args_name (fst rr))
                    else ''world'') @ ''!''))]) (snd rr)),
             raised = None, logs = []\<rparr>)"

text \<open>
  Modelled from the spec: the validator of the request type of the Hello protocol, which
  the validator library derives from the protocol file. It returns pass or fail with a
  field name and a message; here the optional member \<^verbatim>\<open>name\<close> must be a string.
\<close>

definition validate_ReqHello :: "tsrpc_req \<Rightarrow> validate_result" where
  "validate_ReqHello a =
     (case map_of (members a) ''name'' of
        None \<Rightarrow> \<lparr>isError = False, fieldName = [], message = []\<rparr>
      | Some (JStr _) \<Rightarrow> \<lparr>isError = False, fieldName = [], message = []\<rparr>
      | Some _ \<Rightarrow> \<lparr>isError = True, fieldName = ''name'', message = ''must be string''\<rparr>)"

definition hello_config :: server_config where
  "hello_config =
     \<lparr>protocolPath = ''/protocol'', urlRootPath = ''/'', hideApiPath = False,
      showParamInvalidReason = False, logRequestDetail = False\<rparr>"

definition PtlHello :: tsrpc_ptl where
  "PtlHello = \<lparr>filename = ''/protocol/PtlHello.ts'', name = ''Hello''\<rparr>"

text \<open>The server after \<^verbatim>\<open>implementPtl(PtlHello, ApiHelloWorld)\<close>, in each addressing mode.\<close>

definition hello_server :: "bool \<Rightarrow> server" where
  "hello_server hide =
     (case implementPtl (\<lambda>_ _. validate_ReqHello)
             (new_TsrpcServer (hello_config\<lparr>hideApiPath := hide\<rparr>)) PtlHello ApiHelloWorld of
        Inr r \<Rightarrow> fst r
      | Inl _ \<Rightarrow> new_TsrpcServer (hello_config\<lparr>hideApiPath := hide\<rparr>))"

text \<open>A request with the decoded body \<open>a\<close>, posted to \<open>p\<close>.\<close>

definition request :: "string \<Rightarrow> tsrpc_req option \<Rightarrow> api_request" where
  "request p a =
     \<lparr>url = p, path = p, body = [], reqId = 1, realIp = ''127.0.0.1'', args = a,
      rpcUrl = None, rpcPtl = None\<rparr>"

text \<open>The body \<^verbatim>\<open>{name: n}\<close>, and the same body with the reserved field set to \<open>u\<close>.\<close>

definition named :: "string \<Rightarrow> tsrpc_req" where
  "named n = \<lparr>tsrpc_url = None, members = [(''name'', JStr n)]\<rparr>"

definition named_at :: "string \<Rightarrow> string \<Rightarrow> tsrpc_req" where
  "named_at u n = \<lparr>tsrpc_url = Some u, members = [(''name'', JStr n)]\<rparr>"

text \<open>
  The request for \<^verbatim>\<open>/Hello\<close> with the body \<open>a\<close> as the addressing middleware hands it on
  when it found the protocol.
\<close>

definition resolved_hello :: "tsrpc_req \<Rightarrow> api_request \<times> api_response" where
  "resolved_hello a =
     ((request ''/Hello'' (Some a))\<lparr>rpcUrl := Some ''/Hello'', rpcPtl := Some PtlHello\<rparr>,
      fresh_response)"

text \<open>Hooks a user may set: one that does nothing, one that throws, one that rethrows.\<close>

definition noop_hook :: "api_request \<times> api_response \<Rightarrow> effect" where
  "noop_hook rr = \<lparr>state = rr, raised = None, logs = []\<rparr>"


definition rethrow_hook :: "thrown \<Rightarrow> api_request \<times> api_response \<Rightarrow> effect" where
  "rethrow_hook err rr = \<lparr>state = rr, raised = Some err, logs = []\<rparr>"

text \<open>
  The Hello server with a completion callback and an unhandled-error hook that rethrows,
  and the Hello server with a completion callback that throws.
\<close>

definition rethrowing_server :: server where
  "rethrowing_server =
     (hello_server False)\<lparr>onUnhandledApiError := rethrow_hook, onApiComplete := Some noop_hook\<rparr>"


section \<open>Path resolution\<close>

lemma find_map_index: "find P (map f xs) = map_option f (find (P \<circ> f) xs)"
  by (induction xs) simp_all

lemma drop_4_add_Cons: "drop (4 + i) (c # cs) = drop (i + 3) cs"
proof -
  have "4 + i = Suc (i + 3)" by simp
  then show ?thesis by (simp only: drop_Suc_Cons)
qed

lemma drop_add3_Cons: "drop (Suc i + 3) (c # cs) = drop (i + 3) cs"
  by (simp only: add_Suc drop_Suc_Cons)

lemma ptl_at_Suc: "ptl_at (c # cs) (Suc i) = ptl_at cs i"
  unfolding ptl_at_def drop_add3_Cons by auto

lemma ptl_at_0: "ptl_at s 0 = ptl_match s"
  by (auto simp: ptl_at_def ptl_match_def)

lemma find_ptl_at_Cons:
  "find (ptl_at (c # cs)) [0..<length (c # cs)] =
     (if ptl_match (c # cs) then Some 0 else map_option Suc (find (ptl_at cs) [0..<length cs]))"
proof -
  have "[0..<length (c # cs)] = 0 # map Suc [0..<length cs]"
    by (simp add: upt_conv_Cons map_Suc_upt del: upt_Suc)
  moreover have "ptl_at (c # cs) \<circ> Suc = ptl_at cs"
    by (rule ext) (simp add: ptl_at_Suc)
  ultimately show ?thesis
    by (simp add: find_map_index ptl_at_0 del: upt_Suc)
qed

text \<open>The scan of the regular expression removes the token at its first occurrence.\<close>

lemma replace_ptl_first: "replace_ptl s = strip_ptl_first s"
proof (induction s)
  case Nil
  show ?case by (simp add: strip_ptl_first_def)
next
  case (Cons c cs)
  show ?case
  proof (cases "ptl_match (c # cs)")
    case True
    then show ?thesis
      unfolding strip_ptl_first_def find_ptl_at_Cons by simp
  next
    case False
    with Cons show ?thesis
      unfolding strip_ptl_first_def find_ptl_at_Cons
      by (simp add: drop_4_add_Cons split: option.splits)
  qed
qed




lemma endsWith_append: "endsWith (xs @ x) x"
  by (simp add: endsWith_def)

lemma startsWith_append: "startsWith (p @ xs) p"
  by (simp add: startsWith_def)

lemma substr_middle:
  "substr (p @ mid @ ''.ts'') (length p) (int (length (p @ mid @ ''.ts'')) - int (length p) - 3) = mid"
  by (simp add: substr_def)

lemma substr_overlap:
  "length f < length p + 3 \<Longrightarrow> substr f (length p) (int (length f) - int (length p) - 3) = []"
  by (simp add: substr_def)

lemma replace_js_ext_ts: "replace_js_ext (xs @ ''.ts'') = xs @ ''.ts''"
  by (simp add: replace_js_ext_def endsWith_def)

lemma replace_js_ext_js: "replace_js_ext (xs @ ''.js'') = xs @ ''.ts''"
  by (simp add: replace_js_ext_def endsWith_def)

lemma getPtlUrl_middle:
  assumes "replace_js_ext (filename ptl) = protocolPath conf @ mid @ ''.ts''"
  shows "getPtlUrl conf ptl = Inr (replace_ptl (replace_backslashes mid))"
proof -
  let ?f = "protocolPath conf @ mid @ ''.ts''"
  have s: "startsWith ?f (protocolPath conf)" by (rule startsWith_append)
  have "endsWith ((protocolPath conf @ mid) @ ''.ts'') ''.ts''" by (rule endsWith_append)
  then have e: "endsWith ?f ''.ts''" by simp
  show ?thesis
    unfolding getPtlUrl_def assms Let_def
    using s e by (simp only: substr_middle simp_thms if_False)
qed

lemma getPtlUrl_hello: "getPtlUrl (hello_config\<lparr>hideApiPath := hide\<rparr>) PtlHello = Inr ''/Hello''"
proof -
  have "replace_js_ext (filename PtlHello) =
          protocolPath (hello_config\<lparr>hideApiPath := hide\<rparr>) @ ''/PtlHello'' @ ''.ts''"
    by (simp add: PtlHello_def hello_config_def replace_js_ext_def endsWith_def)
  then have "getPtlUrl (hello_config\<lparr>hideApiPath := hide\<rparr>) PtlHello =
               Inr (replace_ptl (replace_backslashes ''/PtlHello''))"
    by (rule getPtlUrl_middle)
  then show ?thesis
    by (simp add: replace_backslashes_def ptl_match_def is_word_char_def)
qed

lemma replace_backslashes_forward: "replace_backslashes s = forward_slashes s"
  by (rule nth_equalityI) (simp_all add: replace_backslashes_def forward_slashes_def)

lemma implementPtl_error:
  "getPtlUrl (config srv) ptl = Inl e \<Longrightarrow> implementPtl gv srv ptl h = Inl e"
  by (simp add: implementPtl_def)

lemma implementPtl_config:
  "implementPtl gv srv ptl h = Inr r \<Longrightarrow> config (fst r) = config srv"
  by (auto simp: implementPtl_def Let_def split: sum.splits)

lemma implementPtl_Inl_iff:
  "implementPtl gv srv ptl h = Inl e \<longleftrightarrow> getPtlUrl (config srv) ptl = Inl e"
  by (auto simp: implementPtl_def Let_def split: sum.splits)

text \<open>
  C5, as the code has it. The declared location is read with a final \<^verbatim>\<open>.js\<close> rewritten to
  \<^verbatim>\<open>.ts\<close>. When it is the root, a middle part and the suffix (\<^verbatim>\<open>.ts\<close>, or \<^verbatim>\<open>.js\<close> before
  the rewriting), the path is the middle part with every backslash replaced by a forward
  slash, position by position, and then the token \<^verbatim>\<open>Ptl\<close> removed at its first occurrence
  that is followed by word characters up to the end. When root and suffix overlap in the
  location, the path is empty. When the rewritten location does not start with the root or
  does not end with \<^verbatim>\<open>.ts\<close>, resolution fails with the error, and so does the registration
  of the descriptor: \<^verbatim>\<open>implementPtl\<close> raises exactly the errors of the resolution and
  registers nothing. The result depends on the root and the location only, and a
  registration leaves the configuration as it is, so resolving the same descriptor twice
  gives the same path, also across registrations.
\<close>

theorem getPtlUrl_resolution:
  "((filename ptl = protocolPath conf @ mid @ ''.ts'' \<or>
     filename ptl = protocolPath conf @ mid @ ''.js'') \<longrightarrow>
      getPtlUrl conf ptl = Inr (strip_ptl_first (forward_slashes mid)))
   \<and> (startsWith (replace_js_ext (filename ptl)) (protocolPath conf) \<and>
      endsWith (replace_js_ext (filename ptl)) ''.ts'' \<and>
      length (replace_js_ext (filename ptl)) < length (protocolPath conf) + 3 \<longrightarrow>
      getPtlUrl conf ptl = Inr [])
   \<and> (\<not> startsWith (replace_js_ext (filename ptl)) (protocolPath conf) \<or>
      \<not> endsWith (replace_js_ext (filename ptl)) ''.ts'' \<longrightarrow>
      getPtlUrl conf ptl =
        Inl (Error (''Protocol is not in the protocolPath : '' @ replace_js_ext (filename ptl))))
   \<and> (config srv = conf \<and>
      (\<not> startsWith (replace_js_ext (filename ptl)) (protocolPath conf) \<or>
       \<not> endsWith (replace_js_ext (filename ptl)) ''.ts'') \<longrightarrow>
      implementPtl gv srv ptl h =
        Inl (Error (''Protocol is not in the protocolPath : '' @ replace_js_ext (filename ptl))))
   \<and> (implementPtl gv srv ptl h = Inl e \<longleftrightarrow> getPtlUrl (config srv) ptl = Inl e)
   \<and> (protocolPath conf' = protocolPath conf \<and> filename ptl' = filename ptl \<longrightarrow>
      getPtlUrl conf' ptl' = getPtlUrl conf ptl)
   \<and> (implementPtl gv srv ptl' h = Inr r \<longrightarrow>
      getPtlUrl (config (fst r)) ptl = getPtlUrl (config srv) ptl)"
proof (intro conjI impI)
  assume "filename ptl = protocolPath conf @ mid @ ''.ts'' \<or>
          filename ptl = protocolPath conf @ mid @ ''.js''"
  then have "replace_js_ext (filename ptl) = protocolPath conf @ mid @ ''.ts''"
    using replace_js_ext_ts [of "protocolPath conf @ mid"]
      replace_js_ext_js [of "protocolPath conf @ mid"] by auto
  then have "getPtlUrl conf ptl = Inr (replace_ptl (replace_backslashes mid))"
    by (rule getPtlUrl_middle)
  then show "getPtlUrl conf ptl = Inr (strip_ptl_first (forward_slashes mid))"
    by (simp only: replace_ptl_first replace_backslashes_forward)
next
  assume "startsWith (replace_js_ext (filename ptl)) (protocolPath conf) \<and>
      endsWith (replace_js_ext (filename ptl)) ''.ts'' \<and>
      length (replace_js_ext (filename ptl)) < length (protocolPath conf) + 3"
  then show "getPtlUrl conf ptl = Inr []"
    by (simp add: getPtlUrl_def Let_def substr_overlap replace_backslashes_def)
next
  assume "\<not> startsWith (replace_js_ext (filename ptl)) (protocolPath conf) \<or>
      \<not> endsWith (replace_js_ext (filename ptl)) ''.ts''"
  then show "getPtlUrl conf ptl =
        Inl (Error (''Protocol is not in the protocolPath : '' @ replace_js_ext (filename ptl)))"
    by (auto simp: getPtlUrl_def Let_def)
next
  assume a: "config srv = conf \<and>
      (\<not> startsWith (replace_js_ext (filename ptl)) (protocolPath conf) \<or>
       \<not> endsWith (replace_js_ext (filename ptl)) ''.ts'')"
  then have "getPtlUrl (config srv) ptl =
        Inl (Error (''Protocol is not in the protocolPath : '' @ replace_js_ext (filename ptl)))"
    by (auto simp: getPtlUrl_def Let_def)
  then show "implementPtl gv srv ptl h =
        Inl (Error (''Protocol is not in the protocolPath : '' @ replace_js_ext (filename ptl)))"
    by (rule implementPtl_error)
next
  show "implementPtl gv srv ptl h = Inl e \<longleftrightarrow> getPtlUrl (config srv) ptl = Inl e"
    by (rule implementPtl_Inl_iff)
next
  assume "protocolPath conf' = protocolPath conf \<and> filename ptl' = filename ptl"
  then show "getPtlUrl conf' ptl' = getPtlUrl conf ptl"
    unfolding getPtlUrl_def by (elim conjE) (simp only:)
next
  assume "implementPtl gv srv ptl' h = Inr r"
  then have "config (fst r) = config srv"
    by (rule implementPtl_config)
  then show "getPtlUrl (config (fst r)) ptl = getPtlUrl (config srv) ptl"
    by simp
qed

theorem getPtlUrl_resolution_witness:
  "getPtlUrl hello_config PtlHello = Inr ''/Hello''
   \<and> getPtlUrl hello_config
       \<lparr>filename = ''/protocol'' @ [CHR 0x5C, CHR ''a'', CHR 0x5C, CHR ''b'', CHR 0x5C] @ ''PtlC.ts'',
        name = ''C''\<rparr> = Inr ''/a/b/C''
   \<and> getPtlUrl (hello_config\<lparr>protocolPath := ''a.ts''\<rparr>) \<lparr>filename = ''a.ts'', name = ''a''\<rparr> = Inr []
   \<and> getPtlUrl hello_config \<lparr>filename = ''/other/PtlHello.ts'', name = ''Hello''\<rparr> =
       Inl (Error ''Protocol is not in the protocolPath : /other/PtlHello.ts'')
   \<and> implementPtl (\<lambda>_ _. validate_ReqHello) (new_TsrpcServer hello_config)
       \<lparr>filename = ''/other/PtlHello.ts'', name = ''Hello''\<rparr> ApiHelloWorld =
       Inl (Error ''Protocol is not in the protocolPath : /other/PtlHello.ts'')
   \<and> getPtlUrl (hello_config\<lparr>hideApiPath := True\<rparr>) PtlHello = getPtlUrl hello_config PtlHello
   \<and> getPtlUrl (config (hello_server False)) PtlHello =
       getPtlUrl (config (new_TsrpcServer (hello_config\<lparr>hideApiPath := False\<rparr>))) PtlHello"
proof (intro conjI)
  have "strip_ptl_first (forward_slashes ''/PtlHello'') = ''/Hello''"
    by (simp add: replace_ptl_first [symmetric] replace_backslashes_forward [symmetric]
        replace_backslashes_def ptl_match_def is_word_char_def)
  then show "getPtlUrl hello_config PtlHello = Inr ''/Hello''"
    using getPtlUrl_resolution [of PtlHello hello_config "''/PtlHello''"]
    by (simp add: PtlHello_def hello_config_def)
next
  let ?mid = "[CHR 0x5C, CHR ''a'', CHR 0x5C, CHR ''b'', CHR 0x5C] @ ''PtlC''"
  have "strip_ptl_first (forward_slashes ?mid) = ''/a/b/C''"
    by (simp add: replace_ptl_first [symmetric] replace_backslashes_forward [symmetric]
        replace_backslashes_def ptl_match_def is_word_char_def)
  then show "getPtlUrl hello_config
       \<lparr>filename = ''/protocol'' @ [CHR 0x5C, CHR ''a'', CHR 0x5C, CHR ''b'', CHR 0x5C] @ ''PtlC.ts'',
        name = ''C''\<rparr> = Inr ''/a/b/C''"
    using getPtlUrl_resolution
      [of "\<lparr>filename = ''/protocol'' @ [CHR 0x5C, CHR ''a'', CHR 0x5C, CHR ''b'', CHR 0x5C] @ ''PtlC.ts'',
            name = ''C''\<rparr>" hello_config ?mid]
    by (simp add: hello_config_def)
next
  show "getPtlUrl (hello_config\<lparr>protocolPath := ''a.ts''\<rparr>) \<lparr>filename = ''a.ts'', name = ''a''\<rparr> = Inr []"
    using getPtlUrl_resolution
      [of "\<lparr>filename = ''a.ts'', name = ''a''\<rparr>" "hello_config\<lparr>protocolPath := ''a.ts''\<rparr>"]
    by (simp add: hello_config_def replace_js_ext_def endsWith_def startsWith_def)
next
  show "getPtlUrl hello_config \<lparr>filename = ''/other/PtlHello.ts'', name = ''Hello''\<rparr> =
       Inl (Error ''Protocol is not in the protocolPath : /other/PtlHello.ts'')"
    using getPtlUrl_resolution
      [of "\<lparr>filename = ''/other/PtlHello.ts'', name = ''Hello''\<rparr>" hello_config]
    by (simp add: hello_config_def replace_js_ext_def endsWith_def startsWith_def)
next
  have c: "config (new_TsrpcServer hello_config) = hello_config"
    by (simp add: new_TsrpcServer_def hello_config_def endsWith_def)
  show "implementPtl (\<lambda>_ _. validate_ReqHello) (new_TsrpcServer hello_config)
       \<lparr>filename = ''/other/PtlHello.ts'', name = ''Hello''\<rparr> ApiHelloWorld =
       Inl (Error ''Protocol is not in the protocolPath : /other/PtlHello.ts'')"
    using getPtlUrl_resolution
      [of "\<lparr>filename = ''/other/PtlHello.ts'', name = ''Hello''\<rparr>" hello_config _
        "new_TsrpcServer hello_config" "\<lambda>_ _. validate_ReqHello" ApiHelloWorld]
    unfolding c
    by (simp add: hello_config_def replace_js_ext_def endsWith_def startsWith_def)
next
  show "getPtlUrl (hello_config\<lparr>hideApiPath := True\<rparr>) PtlHello = getPtlUrl hello_config PtlHello"
    using getPtlUrl_resolution
      [where ptl = PtlHello and conf = hello_config
        and conf' = "hello_config\<lparr>hideApiPath := True\<rparr>" and ptl' = PtlHello]
    by simp
next
  let ?s = "new_TsrpcServer (hello_config\<lparr>hideApiPath := False\<rparr>)"
  have "config ?s = hello_config\<lparr>hideApiPath := False\<rparr>"
    by (simp add: new_TsrpcServer_def hello_config_def endsWith_def)
  then have "getPtlUrl (config ?s) PtlHello = Inr ''/Hello''"
    using getPtlUrl_hello [of False] by (simp only:)
  then obtain r where r: "implementPtl (\<lambda>_ _. validate_ReqHello) ?s PtlHello ApiHelloWorld = Inr r"
    by (simp add: implementPtl_def Let_def)
  then have e: "fst r = hello_server False"
    by (simp add: hello_server_def)
  note across = getPtlUrl_resolution [THEN conjunct2, THEN conjunct2, THEN conjunct2,
      THEN conjunct2, THEN conjunct2, THEN conjunct2, THEN mp]
  from across [OF r]
  have "getPtlUrl (config (fst r)) PtlHello = getPtlUrl (config ?s) PtlHello" .
  then show "getPtlUrl (config (hello_server False)) PtlHello = getPtlUrl (config ?s) PtlHello"
    unfolding e .
qed

text \<open>
  C5 as stated fails where it says that a location which does not end with the suffix
  \<^verbatim>\<open>.ts\<close> makes resolution fail: a location ending in \<^verbatim>\<open>.js\<close> resolves.
\<close>

theorem getPtlUrl_js_counterexample:
  "\<not> endsWith ''/protocol/a/b/PtlC.js'' ''.ts''
   \<and> getPtlUrl hello_config \<lparr>filename = ''/protocol/a/b/PtlC.js'', name = ''C''\<rparr> = Inr ''/a/b/C''"
  by (simp add: getPtlUrl_def hello_config_def replace_js_ext_def endsWith_def startsWith_def
      substr_def replace_backslashes_def ptl_match_def is_word_char_def)




section \<open>Registration\<close>

lemma implementPtl_resolved:
  assumes "getPtlUrl (config srv) ptl = Inr u"
  shows "implementPtl gv srv ptl h =
           Inr (srv\<lparr>implementedUrl := (implementedUrl srv)
                  (u \<mapsto> \<lparr>protocol = ptl, handler = h,
                          reqValidator = gv (''Req'' @ name ptl) (replace_js_ext (filename ptl))\<rparr>)\<rparr>,
                (case implementedUrl srv u of
                   Some _ \<Rightarrow> [Console Warn
                      [LStr (''You are implementing a duplicated protocol: '' @ filename ptl),
                       LStr (''url='' @ u)]]
                 | None \<Rightarrow> []) @
                [Console Log [LStr ''Protocol registered succ: '', LStr u, LStr (filename ptl)]])"
  using assms by (simp add: implementPtl_def Let_def)

lemma new_hello_server:
  "new_TsrpcServer (hello_config\<lparr>hideApiPath := hide\<rparr>) =
     \<lparr>config = hello_config\<lparr>hideApiPath := hide\<rparr>,
      implementedUrl = Map.empty,
      routerBeforeApiHandler = [],
      onPtlNotFound = default_onPtlNotFound,
      onUnhandledApiError = default_onUnhandledApiError,
      onApiComplete = None\<rparr>"
  by (simp add: new_TsrpcServer_def hello_config_def endsWith_def)

lemma hello_server_eq:
  "hello_server hide =
     \<lparr>config = hello_config\<lparr>hideApiPath := hide\<rparr>,
      implementedUrl = [''/Hello'' \<mapsto>
        \<lparr>protocol = PtlHello, handler = ApiHelloWorld, reqValidator = validate_ReqHello\<rparr>],
      routerBeforeApiHandler = [],
      onPtlNotFound = default_onPtlNotFound,
      onUnhandledApiError = default_onUnhandledApiError,
      onApiComplete = None\<rparr>"
proof -
  let ?s = "\<lparr>config = hello_config\<lparr>hideApiPath := hide\<rparr>,
      implementedUrl = Map.empty,
      routerBeforeApiHandler = [],
      onPtlNotFound = default_onPtlNotFound,
      onUnhandledApiError = default_onUnhandledApiError,
      onApiComplete = None\<rparr>"
  have "getPtlUrl (config ?s) PtlHello = Inr ''/Hello''"
    using getPtlUrl_hello [of hide] by simp
  then have "implementPtl (\<lambda>_ _. validate_ReqHello) ?s PtlHello ApiHelloWorld =
               Inr (?s\<lparr>implementedUrl := [''/Hello'' \<mapsto>
                      \<lparr>protocol = PtlHello, handler = ApiHelloWorld,
                       reqValidator = validate_ReqHello\<rparr>]\<rparr>,
                    [Console Log [LStr ''Protocol registered succ: '', LStr ''/Hello'',
                                  LStr (filename PtlHello)]])"
    by (simp add: implementPtl_resolved)
  then show ?thesis
    unfolding hello_server_def new_hello_server by simp
qed

text \<open>
  C6: when two descriptors resolve to the same path, both registrations return normally,
  the entry at that path is then the second descriptor with the second handler and the
  validator obtained for the second descriptor, and the second registration writes the
  warning on the console. The validator library is taken to return a validator.
\<close>

theorem implementPtl_last_write_wins:
  assumes "getPtlUrl (config srv) p1 = Inr u" and "getPtlUrl (config srv) p2 = Inr u"
  shows "\<exists>srv1 ev1 srv2 ev2.
           implementPtl gv srv p1 h1 = Inr (srv1, ev1) \<and>
           implementPtl gv srv1 p2 h2 = Inr (srv2, ev2) \<and>
           implementedUrl srv2 u =
             Some \<lparr>protocol = p2, handler = h2,
                   reqValidator = gv (''Req'' @ name p2) (replace_js_ext (filename p2))\<rparr> \<and>
           Console Warn [LStr (''You are implementing a duplicated protocol: '' @ filename p2),
                         LStr (''url='' @ u)] \<in> set ev2"
proof -
  let ?e1 = "\<lparr>protocol = p1, handler = h1,
              reqValidator = gv (''Req'' @ name p1) (replace_js_ext (filename p1))\<rparr>"
  let ?e2 = "\<lparr>protocol = p2, handler = h2,
              reqValidator = gv (''Req'' @ name p2) (replace_js_ext (filename p2))\<rparr>"
  let ?srv1 = "srv\<lparr>implementedUrl := (implementedUrl srv)(u \<mapsto> ?e1)\<rparr>"
  let ?srv2 = "?srv1\<lparr>implementedUrl := (implementedUrl ?srv1)(u \<mapsto> ?e2)\<rparr>"
  let ?warn = "Console Warn [LStr (''You are implementing a duplicated protocol: '' @ filename p2),
                            LStr (''url='' @ u)]"
  let ?ev2 = "[?warn, Console Log [LStr ''Protocol registered succ: '', LStr u, LStr (filename p2)]]"
  obtain ev1 where i1: "implementPtl gv srv p1 h1 = Inr (?srv1, ev1)"
    using implementPtl_resolved [OF assms(1)] by blast
  have "getPtlUrl (config ?srv1) p2 = Inr u"
    using assms(2) by simp
  then have "implementPtl gv ?srv1 p2 h2 =
               Inr (?srv2, (case implementedUrl ?srv1 u of Some _ \<Rightarrow> [?warn] | None \<Rightarrow> []) @
                 [Console Log [LStr ''Protocol registered succ: '', LStr u, LStr (filename p2)]])"
    by (rule implementPtl_resolved)
  moreover have "implementedUrl ?srv1 u = Some ?e1"
    by simp
  ultimately have i2: "implementPtl gv ?srv1 p2 h2 = Inr (?srv2, ?ev2)"
    by (simp only: option.case append.simps)
  have l: "implementedUrl ?srv2 u = Some ?e2"
    by simp
  have w: "?warn \<in> set ?ev2"
    by (simp only: list.set insertI1)
  from i1 i2 l w show ?thesis
    by blast
qed

theorem implementPtl_last_write_wins_witness:
  "\<exists>srv1 ev1 srv2 ev2.
     implementPtl (\<lambda>_ _. validate_ReqHello) (new_TsrpcServer hello_config) PtlHello ApiHelloWorld =
       Inr (srv1, ev1) \<and>
     implementPtl (\<lambda>_ _. validate_ReqHello) srv1
       \<lparr>filename = ''/protocol/PtlHello.js'', name = ''Hello''\<rparr> default_onPtlNotFound =
       Inr (srv2, ev2) \<and>
     implementedUrl srv2 ''/Hello'' =
       Some \<lparr>protocol = \<lparr>filename = ''/protocol/PtlHello.js'', name = ''Hello''\<rparr>,
             handler = default_onPtlNotFound, reqValidator = validate_ReqHello\<rparr> \<and>
     Console Warn [LStr ''You are implementing a duplicated protocol: /protocol/PtlHello.js'',
                   LStr ''url=/Hello''] \<in> set ev2"
proof -
  have c: "config (new_TsrpcServer hello_config) = hello_config"
    by (simp add: new_TsrpcServer_def hello_config_def endsWith_def)
  have hc: "hello_config\<lparr>hideApiPath := False\<rparr> = hello_config"
    by (simp add: hello_config_def)
  have a: "getPtlUrl (config (new_TsrpcServer hello_config)) PtlHello = Inr ''/Hello''"
    using getPtlUrl_hello [of False] unfolding hc c .
  have b: "getPtlUrl (config (new_TsrpcServer hello_config))
             \<lparr>filename = ''/protocol/PtlHello.js'', name = ''Hello''\<rparr> = Inr ''/Hello''"
    unfolding c
    by (simp add: getPtlUrl_def hello_config_def replace_js_ext_def endsWith_def startsWith_def
        substr_def replace_backslashes_def ptl_match_def is_word_char_def)
  show ?thesis
    using implementPtl_last_write_wins [OF a b, of "\<lambda>_ _. validate_ReqHello" ApiHelloWorld
        default_onPtlNotFound]
    by simp
qed

section \<open>The final handler\<close>

lemma console_events_calls:
  "HandlerInvoked \<notin> set (console_events ls)"
  "CompleteInvoked \<notin> set (console_events ls)"
  by (auto simp: console_events_def)

lemma callOnApiComplete_trace:
  "HandlerInvoked \<in> set (trace (callOnApiComplete srv rr tr)) \<longleftrightarrow> HandlerInvoked \<in> set tr"
  "CompleteInvoked \<in> set (trace (callOnApiComplete srv rr tr)) \<longleftrightarrow>
     CompleteInvoked \<in> set tr \<or> onApiComplete srv \<noteq> None"
  by (auto simp: callOnApiComplete_def console_events_calls split: option.splits)

lemma catchHandler_HandlerInvoked:
  "HandlerInvoked \<in> set (trace (catchHandler srv e tr)) \<longleftrightarrow> HandlerInvoked \<in> set tr"
  by (auto simp: catchHandler_def Let_def callOnApiComplete_trace console_events_calls
      split: option.splits thrown.splits)

lemma catchHandler_CompleteInvoked:
  "CompleteInvoked \<in> set (trace (catchHandler srv e tr)) \<longleftrightarrow>
     CompleteInvoked \<in> set tr \<or> (onApiComplete srv \<noteq> None \<and> completion_reached srv e)"
  by (auto simp: catchHandler_def completion_reached_def Let_def callOnApiComplete_trace
      console_events_calls split: option.splits thrown.splits)

lemma apiHandler_dispatch:
  assumes "reaches_handler srv rr ent"
  shows "apiHandler srv rr =
           catchHandler srv (handler ent rr)
             ([Console Log
                 [LStr ''[ApiReq]'', LReqId (reqId (fst rr)), LUrl (rpcUrl (fst rr)),
                  LStr (realIp (fst rr)),
                  if logRequestDetail (config srv) then LArgs (args (fst rr)) else LStr []]] @
              HandlerInvoked # console_events (logs (handler ent rr)))"
  using assms
  by (auto simp: reaches_handler_def apiHandler_def Let_def split: option.splits)

lemma apiHandler_HandlerInvoked:
  "HandlerInvoked \<in> set (trace (apiHandler srv rr)) \<longleftrightarrow> (\<exists>ent. reaches_handler srv rr ent)"
proof
  assume "\<exists>ent. reaches_handler srv rr ent"
  then obtain ent where "reaches_handler srv rr ent" ..
  then show "HandlerInvoked \<in> set (trace (apiHandler srv rr))"
    by (simp add: apiHandler_dispatch catchHandler_HandlerInvoked)
next
  assume "HandlerInvoked \<in> set (trace (apiHandler srv rr))"
  then show "\<exists>ent. reaches_handler srv rr ent"
    by (auto simp: apiHandler_def reaches_handler_def Let_def catchHandler_HandlerInvoked
        console_events_calls split: option.splits if_splits)
qed

lemma checkProtocolRegistered_rpcPtl:
  assumes "args (fst rr) = Some a"
    and "apiPreCheckError (snd (checkProtocolRegistered srv rr)) = None"
  shows "rpcPtl (fst (checkProtocolRegistered srv rr)) =
           map_option protocol
             (implementedUrl srv (url_key (rpcUrl (fst (checkProtocolRegistered srv rr)))))"
  using assms
  by (auto simp: checkProtocolRegistered_def lookupRpcPtl_def set_apiPreCheckError_def
      split: option.splits if_splits)

text \<open>
  C1: the final handler decides in this order. (a) Without a decoded body it answers the
  raw text under status 400. (b) Otherwise, with a pre-check error tag, it sends that
  error. (c) Otherwise, without a resolved protocol, it calls the not-found hook, which by
  default sends \<^verbatim>\<open>PTL_NOT_FOUND\<close>; the addressing middleware resolves the protocol exactly
  when the registry has an entry at the resolved path. (d) Otherwise, when the validator
  of the entry rejects the arguments, it sends \<^verbatim>\<open>INVALID_REQ_PARAM\<close>. The handler is
  invoked if and only if none of the four holds and the registry has the entry of the
  resolved path, as it has whenever the addressing middleware resolved the protocol.
\<close>

theorem apiHandler_priority:
  "(args req = None \<longrightarrow>
      final (apiHandler srv (req, res)) = (req, res_send 400 ''Invalid Request Body'' res))
   \<and> (args req = Some a \<and> apiPreCheckError res = Some (m, c) \<longrightarrow>
      final (apiHandler srv (req, res)) = (req, res_error m (JStr c) res))
   \<and> (args req = Some a \<and> apiPreCheckError res = None \<and> rpcPtl req = None \<longrightarrow>
      final (apiHandler srv (req, res)) = state (onPtlNotFound srv (req, res)) \<and>
      PtlNotFoundInvoked \<in> set (trace (apiHandler srv (req, res))))
   \<and> state (default_onPtlNotFound (req, res)) =
       (req, res_error ''404 Not Found'' (JStr ''PTL_NOT_FOUND'') res)
   \<and> (args req = Some a \<and> apiPreCheckError (snd (checkProtocolRegistered srv (req, res))) = None \<longrightarrow>
      rpcPtl (fst (checkProtocolRegistered srv (req, res))) =
        map_option protocol
          (implementedUrl srv (url_key (rpcUrl (fst (checkProtocolRegistered srv (req, res)))))))
   \<and> (args req = Some a \<and> apiPreCheckError res = None \<and> rpcPtl req = Some p \<and>
      implementedUrl srv (url_key (rpcUrl req)) = Some ent \<and> isError (reqValidator ent a) \<longrightarrow>
      final (apiHandler srv (req, res)) =
        (req, res_error
           (if showParamInvalidReason (config srv)
            then fieldName (reqValidator ent a) @ '': '' @ message (reqValidator ent a)
            else ''Invalid Request Parameter'')
           (JStr ''INVALID_REQ_PARAM'') res))
   \<and> (HandlerInvoked \<in> set (trace (apiHandler srv (req, res))) \<longleftrightarrow>
        (\<exists>e. reaches_handler srv (req, res) e))"
proof (intro conjI impI)
  assume "args req = None"
  then show "final (apiHandler srv (req, res)) = (req, res_send 400 ''Invalid Request Body'' res)"
    by (simp add: apiHandler_def)
next
  assume "args req = Some a \<and> apiPreCheckError res = Some (m, c)"
  then show "final (apiHandler srv (req, res)) = (req, res_error m (JStr c) res)"
    by (simp add: apiHandler_def)
next
  assume h: "args req = Some a \<and> apiPreCheckError res = None \<and> rpcPtl req = None"
  then show "final (apiHandler srv (req, res)) = state (onPtlNotFound srv (req, res))"
    by (simp add: apiHandler_def Let_def)
  from h show "PtlNotFoundInvoked \<in> set (trace (apiHandler srv (req, res)))"
    by (simp add: apiHandler_def Let_def)
next
  show "state (default_onPtlNotFound (req, res)) =
          (req, res_error ''404 Not Found'' (JStr ''PTL_NOT_FOUND'') res)"
    by (simp add: default_onPtlNotFound_def)
next
  assume "args req = Some a \<and> apiPreCheckError (snd (checkProtocolRegistered srv (req, res))) = None"
  then show "rpcPtl (fst (checkProtocolRegistered srv (req, res))) =
        map_option protocol
          (implementedUrl srv (url_key (rpcUrl (fst (checkProtocolRegistered srv (req, res))))))"
    using checkProtocolRegistered_rpcPtl [of "(req, res)" a srv] by simp
next
  assume "args req = Some a \<and> apiPreCheckError res = None \<and> rpcPtl req = Some p \<and>
      implementedUrl srv (url_key (rpcUrl req)) = Some ent \<and> isError (reqValidator ent a)"
  then show "final (apiHandler srv (req, res)) =
        (req, res_error
           (if showParamInvalidReason (config srv)
            then fieldName (reqValidator ent a) @ '': '' @ message (reqValidator ent a)
            else ''Invalid Request Parameter'')
           (JStr ''INVALID_REQ_PARAM'') res)"
    by (simp add: apiHandler_def Let_def)
next
  show "HandlerInvoked \<in> set (trace (apiHandler srv (req, res))) \<longleftrightarrow>
          (\<exists>e. reaches_handler srv (req, res) e)"
    by (rule apiHandler_HandlerInvoked)
qed

lemmas hello_eval =
  hello_server_eq handleRequest_def checkProtocolRegistered_def lookupRpcPtl_def
  set_apiPreCheckError_def apiHandler_def catchHandler_def callOnApiComplete_def
  request_def resolved_hello_def named_def named_at_def fresh_response_def hello_config_def
  startsWith_def ApiHelloWorld_def args_name_def validate_ReqHello_def res_succ_def
  res_error_def res_send_def default_onPtlNotFound_def default_onUnhandledApiError_def
  console_events_def reaches_handler_def completion_reached_def Let_def

theorem apiHandler_priority_witness:
  "sent (snd (final (apiHandler (hello_server False) (request ''/Hello'' None, fresh_response)))) =
     [RawBody 400 ''Invalid Request Body'']
   \<and> sent (snd (final (apiHandler (hello_server False)
        (request ''/Hello'' (Some (named ''world'')),
         fresh_response\<lparr>apiPreCheckError := Some (''Invalid path'', ''INVALID_PATH'')\<rparr>)))) =
     [ErrorEnvelope ''Invalid path'' (JStr ''INVALID_PATH'')]
   \<and> sent (snd (final (apiHandler (hello_server False)
        (request ''/Nope'' (Some (named ''world'')), fresh_response)))) =
     [ErrorEnvelope ''404 Not Found'' (JStr ''PTL_NOT_FOUND'')]
   \<and> rpcPtl (fst (checkProtocolRegistered (hello_server False)
        (request ''/Hello'' (Some (named ''world'')), fresh_response))) = Some PtlHello
   \<and> sent (snd (final (apiHandler (hello_server False)
        (resolved_hello \<lparr>tsrpc_url = None, members = [(''name'', JNum 3)]\<rparr>)))) =
     [ErrorEnvelope ''Invalid Request Parameter'' (JStr ''INVALID_REQ_PARAM'')]
   \<and> HandlerInvoked \<in> set (trace (apiHandler (hello_server False) (resolved_hello (named ''world''))))"
proof (intro conjI)
  show "sent (snd (final (apiHandler (hello_server False) (request ''/Hello'' None, fresh_response)))) =
     [RawBody 400 ''Invalid Request Body'']"
    using apiHandler_priority [where req = "request ''/Hello'' None" and srv = "hello_server False"
        and res = fresh_response]
    by (simp add: request_def fresh_response_def res_send_def)
next
  show "sent (snd (final (apiHandler (hello_server False)
        (request ''/Hello'' (Some (named ''world'')),
         fresh_response\<lparr>apiPreCheckError := Some (''Invalid path'', ''INVALID_PATH'')\<rparr>)))) =
     [ErrorEnvelope ''Invalid path'' (JStr ''INVALID_PATH'')]"
    using apiHandler_priority [where req = "request ''/Hello'' (Some (named ''world''))"
        and srv = "hello_server False"
        and res = "fresh_response\<lparr>apiPreCheckError := Some (''Invalid path'', ''INVALID_PATH'')\<rparr>"
        and a = "named ''world''" and m = "''Invalid path''" and c = "''INVALID_PATH''"]
    by (simp add: request_def fresh_response_def res_error_def)
next
  show "sent (snd (final (apiHandler (hello_server False)
        (request ''/Nope'' (Some (named ''world'')), fresh_response)))) =
     [ErrorEnvelope ''404 Not Found'' (JStr ''PTL_NOT_FOUND'')]"
    using apiHandler_priority [where req = "request ''/Nope'' (Some (named ''world''))"
        and srv = "hello_server False" and res = fresh_response and a = "named ''world''"]
    by (simp add: request_def fresh_response_def res_error_def hello_server_eq)
next
  have "apiPreCheckError (snd (checkProtocolRegistered (hello_server False)
          (request ''/Hello'' (Some (named ''world'')), fresh_response))) = None"
    by (simp add: hello_eval)
  then show "rpcPtl (fst (checkProtocolRegistered (hello_server False)
        (request ''/Hello'' (Some (named ''world'')), fresh_response))) = Some PtlHello"
    using apiHandler_priority [where req = "request ''/Hello'' (Some (named ''world''))"
        and srv = "hello_server False" and res = fresh_response and a = "named ''world''"]
    by (simp add: hello_eval)
next
  show "sent (snd (final (apiHandler (hello_server False)
        (resolved_hello \<lparr>tsrpc_url = None, members = [(''name'', JNum 3)]\<rparr>)))) =
     [ErrorEnvelope ''Invalid Request Parameter'' (JStr ''INVALID_REQ_PARAM'')]"
    using apiHandler_priority
      [where req = "fst (resolved_hello \<lparr>tsrpc_url = None, members = [(''name'', JNum 3)]\<rparr>)"
        and srv = "hello_server False" and res = fresh_response
        and a = "\<lparr>tsrpc_url = None, members = [(''name'', JNum 3)]\<rparr>" and p = PtlHello
        and ent = "\<lparr>protocol = PtlHello, handler = ApiHelloWorld,
                      reqValidator = validate_ReqHello\<rparr>"]
    by (simp add: resolved_hello_def request_def fresh_response_def res_error_def hello_server_eq
        hello_config_def validate_ReqHello_def)
next
  have "reaches_handler (hello_server False) (resolved_hello (named ''world''))
          \<lparr>protocol = PtlHello, handler = ApiHelloWorld, reqValidator = validate_ReqHello\<rparr>"
    by (simp add: hello_eval)
  then show "HandlerInvoked \<in> set (trace (apiHandler (hello_server False) (resolved_hello (named ''world''))))"
    using apiHandler_priority [where req = "fst (resolved_hello (named ''world''))"
        and srv = "hello_server False" and res = "snd (resolved_hello (named ''world''))"]
    by auto
qed

text \<open>
  C3: when the handler raises a typed error with message \<open>X\<close> and info \<open>Y\<close>, the dispatcher
  writes the error envelope with exactly \<open>X\<close> and \<open>Y\<close> onto the response as the handler left
  it, and does nothing else to it; the completion hook, when one is set, is called with
  that response.
\<close>

theorem typed_error_forwarded:
  assumes "reaches_handler srv (req, res) ent"
    and "handler ent (req, res) = \<lparr>state = (req', res'), raised = Some (TsrpcError X Y), logs = l\<rparr>"
  shows "final (apiHandler srv (req, res)) =
           (case onApiComplete srv of
              None \<Rightarrow> (req', res'\<lparr>sent := sent res' @ [ErrorEnvelope X Y]\<rparr>)
            | Some f \<Rightarrow> state (f (req', res'\<lparr>sent := sent res' @ [ErrorEnvelope X Y]\<rparr>)))"
  unfolding apiHandler_dispatch [OF assms(1)] assms(2)
  by (simp add: catchHandler_def callOnApiComplete_def res_error_def split: option.splits)

theorem typed_error_forwarded_witness:
  "sent (snd (final (apiHandler (hello_server False) (resolved_hello (named ''TsrpcError''))))) =
     [ErrorEnvelope ''TsrpcError'' (JStr ''TsrpcError'')]"
proof -
  have r: "reaches_handler (hello_server False)
             (fst (resolved_hello (named ''TsrpcError'')), snd (resolved_hello (named ''TsrpcError'')))
             \<lparr>protocol = PtlHello, handler = ApiHelloWorld, reqValidator = validate_ReqHello\<rparr>"
    by (simp add: hello_eval)
  have h: "handler \<lparr>protocol = PtlHello, handler = ApiHelloWorld, reqValidator = validate_ReqHello\<rparr>
             (fst (resolved_hello (named ''TsrpcError'')), snd (resolved_hello (named ''TsrpcError''))) =
           \<lparr>state = (fst (resolved_hello (named ''TsrpcError'')), fresh_response),
            raised = Some (TsrpcError ''TsrpcError'' (JStr ''TsrpcError'')), logs = []\<rparr>"
    by (simp add: hello_eval)
  show ?thesis
    using typed_error_forwarded [OF r h]
    by (simp add: hello_server_eq fresh_response_def)
qed

text \<open>
  C2: when the handler raises an untyped error and the unhandled-error hook is the one of
  the class, the dispatcher writes the generic envelope with the code
  \<^verbatim>\<open>UNHANDLED_API_ERROR\<close> onto the response as the handler left it. Nothing of the thrown
  value enters the response: whatever other untyped error the handler had raised from the
  same state, the request and response at the end are the same, and so is the exception
  that leaves the dispatcher, if any.
\<close>

theorem untyped_error_generic:
  assumes "reaches_handler srv (req, res) ent"
    and "handler ent (req, res) = \<lparr>state = (req', res'), raised = Some x, logs = l\<rparr>"
    and "\<not> is_TsrpcError x"
    and "onUnhandledApiError srv = default_onUnhandledApiError"
  shows "final (apiHandler srv (req, res)) =
           (case onApiComplete srv of
              None \<Rightarrow> (req', res'\<lparr>sent := sent res' @
                 [ErrorEnvelope ''Internal Server Error'' (JStr ''UNHANDLED_API_ERROR'')]\<rparr>)
            | Some f \<Rightarrow> state (f (req', res'\<lparr>sent := sent res' @
                 [ErrorEnvelope ''Internal Server Error'' (JStr ''UNHANDLED_API_ERROR'')]\<rparr>)))
         \<and> (\<forall>x' l' tr'. \<not> is_TsrpcError x' \<longrightarrow>
              final (catchHandler srv \<lparr>state = (req', res'), raised = Some x', logs = l'\<rparr> tr') =
                final (apiHandler srv (req, res)) \<and>
              uncaught (catchHandler srv \<lparr>state = (req', res'), raised = Some x', logs = l'\<rparr> tr') =
                uncaught (apiHandler srv (req, res)))"
proof -
  have generic:
     "final (catchHandler srv \<lparr>state = (req', res'), raised = Some y, logs = k\<rparr> tr) =
        (case onApiComplete srv of
           None \<Rightarrow> (req', res'\<lparr>sent := sent res' @
              [ErrorEnvelope ''Internal Server Error'' (JStr ''UNHANDLED_API_ERROR'')]\<rparr>)
         | Some f \<Rightarrow> state (f (req', res'\<lparr>sent := sent res' @
              [ErrorEnvelope ''Internal Server Error'' (JStr ''UNHANDLED_API_ERROR'')]\<rparr>))) \<and>
      uncaught (catchHandler srv \<lparr>state = (req', res'), raised = Some y, logs = k\<rparr> tr) =
        (case onApiComplete srv of
           None \<Rightarrow> None
         | Some f \<Rightarrow> raised (f (req', res'\<lparr>sent := sent res' @
              [ErrorEnvelope ''Internal Server Error'' (JStr ''UNHANDLED_API_ERROR'')]\<rparr>)))"
    if "\<not> is_TsrpcError y" for y k tr
    using that
    by (cases y)
      (simp_all add: catchHandler_def callOnApiComplete_def assms(4)
        default_onUnhandledApiError_def res_error_def Let_def split: option.splits)
  have here: "apiHandler srv (req, res) =
      catchHandler srv \<lparr>state = (req', res'), raised = Some x, logs = l\<rparr>
        ([Console Log
            [LStr ''[ApiReq]'', LReqId (reqId req), LUrl (rpcUrl req), LStr (realIp req),
             if logRequestDetail (config srv) then LArgs (args req) else LStr []]] @
         HandlerInvoked # console_events l)"
    using apiHandler_dispatch [OF assms(1)] assms(2) by simp
  show ?thesis
    unfolding here using generic [OF assms(3)] generic by simp
qed

theorem untyped_error_generic_witness:
  "sent (snd (final (apiHandler (hello_server False) (resolved_hello (named ''Error''))))) =
     [ErrorEnvelope ''Internal Server Error'' (JStr ''UNHANDLED_API_ERROR'')]
   \<and> final (catchHandler (hello_server False)
        \<lparr>state = resolved_hello (named ''Error''),
         raised = Some (Thrown (JStr ''the password is 1234'')), logs = []\<rparr> []) =
     final (apiHandler (hello_server False) (resolved_hello (named ''Error'')))"
proof -
  have r: "reaches_handler (hello_server False)
             (fst (resolved_hello (named ''Error'')), snd (resolved_hello (named ''Error'')))
             \<lparr>protocol = PtlHello, handler = ApiHelloWorld, reqValidator = validate_ReqHello\<rparr>"
    by (simp add: hello_eval)
  have h: "handler \<lparr>protocol = PtlHello, handler = ApiHelloWorld, reqValidator = validate_ReqHello\<rparr>
             (fst (resolved_hello (named ''Error'')), snd (resolved_hello (named ''Error''))) =
           \<lparr>state = (fst (resolved_hello (named ''Error'')), fresh_response),
            raised = Some (JsError ''Error''), logs = []\<rparr>"
    by (simp add: hello_eval)
  have u: "\<not> is_TsrpcError (JsError ''Error'')"
    by simp
  have d: "onUnhandledApiError (hello_server False) = default_onUnhandledApiError"
    by (simp add: hello_server_eq)
  have s: "resolved_hello (named ''Error'') = (fst (resolved_hello (named ''Error'')), fresh_response)"
    by (simp add: resolved_hello_def)
  from untyped_error_generic [OF r h u d] show ?thesis
    using s by (simp add: hello_server_eq fresh_response_def)
qed

section \<open>The completion callback\<close>

lemma apiHandler_CompleteInvoked:
  "CompleteInvoked \<in> set (trace (apiHandler srv rr)) \<longleftrightarrow>
     (\<exists>ent. reaches_handler srv rr ent \<and> onApiComplete srv \<noteq> None \<and>
            completion_reached srv (handler ent rr))"
proof
  assume "\<exists>ent. reaches_handler srv rr ent \<and> onApiComplete srv \<noteq> None \<and>
            completion_reached srv (handler ent rr)"
  then obtain ent where "reaches_handler srv rr ent" and "onApiComplete srv \<noteq> None"
    and "completion_reached srv (handler ent rr)" by blast
  then show "CompleteInvoked \<in> set (trace (apiHandler srv rr))"
    by (simp add: apiHandler_dispatch catchHandler_CompleteInvoked)
next
  assume "CompleteInvoked \<in> set (trace (apiHandler srv rr))"
  then show "\<exists>ent. reaches_handler srv rr ent \<and> onApiComplete srv \<noteq> None \<and>
            completion_reached srv (handler ent rr)"
    by (auto simp: apiHandler_def reaches_handler_def Let_def catchHandler_CompleteInvoked
        console_events_calls split: option.splits if_splits)
qed

lemma completion_reached_default:
  "onUnhandledApiError srv = default_onUnhandledApiError \<Longrightarrow> completion_reached srv e"
  by (simp add: completion_reached_def default_onUnhandledApiError_def split: option.splits)

lemma reaches_handler_unique:
  "reaches_handler srv rr e \<Longrightarrow> reaches_handler srv rr e' \<Longrightarrow> e' = e"
  by (auto simp: reaches_handler_def split: option.splits)

text \<open>
  C9, as the code has it, for a server with a completion callback. The callback is invoked
  only on requests whose handler was invoked, never on a request that ends in a
  pre-dispatch condition. On a request whose handler was invoked it is invoked exactly
  when control reaches the last statement: the handler returned, or raised a typed error,
  or raised an untyped error and the unhandled-error hook returned. With the hook of the
  class that is always the case.
\<close>

theorem onApiComplete_invocation:
  assumes "onApiComplete srv = Some f"
  shows "(CompleteInvoked \<in> set (trace (apiHandler srv rr)) \<longrightarrow>
            HandlerInvoked \<in> set (trace (apiHandler srv rr)))
       \<and> (args (fst rr) = None \<or> apiPreCheckError (snd rr) \<noteq> None \<or> rpcPtl (fst rr) = None \<or>
            (\<exists>a e. args (fst rr) = Some a \<and>
                    implementedUrl srv (url_key (rpcUrl (fst rr))) = Some e \<and>
                    isError (reqValidator e a)) \<longrightarrow>
            CompleteInvoked \<notin> set (trace (apiHandler srv rr)))
       \<and> (reaches_handler srv rr ent \<longrightarrow>
            (CompleteInvoked \<in> set (trace (apiHandler srv rr)) \<longleftrightarrow>
               completion_reached srv (handler ent rr)))
       \<and> (reaches_handler srv rr ent \<and> onUnhandledApiError srv = default_onUnhandledApiError \<longrightarrow>
            CompleteInvoked \<in> set (trace (apiHandler srv rr)))"
proof (intro conjI impI)
  assume "CompleteInvoked \<in> set (trace (apiHandler srv rr))"
  then show "HandlerInvoked \<in> set (trace (apiHandler srv rr))"
    unfolding apiHandler_CompleteInvoked apiHandler_HandlerInvoked by blast
next
  assume "args (fst rr) = None \<or> apiPreCheckError (snd rr) \<noteq> None \<or> rpcPtl (fst rr) = None \<or>
            (\<exists>a e. args (fst rr) = Some a \<and>
                    implementedUrl srv (url_key (rpcUrl (fst rr))) = Some e \<and>
                    isError (reqValidator e a))"
  then have "\<not> (\<exists>e. reaches_handler srv rr e)"
    by (auto simp: reaches_handler_def split: option.splits)
  then show "CompleteInvoked \<notin> set (trace (apiHandler srv rr))"
    unfolding apiHandler_CompleteInvoked by blast
next
  assume r: "reaches_handler srv rr ent"
  show "CompleteInvoked \<in> set (trace (apiHandler srv rr)) \<longleftrightarrow>
          completion_reached srv (handler ent rr)"
  proof
    assume "CompleteInvoked \<in> set (trace (apiHandler srv rr))"
    then obtain e where e: "reaches_handler srv rr e"
      and cr: "completion_reached srv (handler e rr)"
      unfolding apiHandler_CompleteInvoked by blast
    from r e have "e = ent" by (rule reaches_handler_unique)
    with cr show "completion_reached srv (handler ent rr)" by simp
  next
    assume "completion_reached srv (handler ent rr)"
    with r assms have "\<exists>e. reaches_handler srv rr e \<and> onApiComplete srv \<noteq> None \<and>
        completion_reached srv (handler e rr)"
      by auto
    then show "CompleteInvoked \<in> set (trace (apiHandler srv rr))"
      unfolding apiHandler_CompleteInvoked .
  qed
next
  assume "reaches_handler srv rr ent \<and> onUnhandledApiError srv = default_onUnhandledApiError"
  then have "reaches_handler srv rr ent \<and> onApiComplete srv \<noteq> None \<and>
      completion_reached srv (handler ent rr)"
    using assms completion_reached_default [of srv "handler ent rr"] by simp
  then have "\<exists>e. reaches_handler srv rr e \<and> onApiComplete srv \<noteq> None \<and>
      completion_reached srv (handler e rr)" ..
  then show "CompleteInvoked \<in> set (trace (apiHandler srv rr))"
    unfolding apiHandler_CompleteInvoked .
qed

theorem onApiComplete_invocation_witness:
  "CompleteInvoked \<notin> set (trace (apiHandler rethrowing_server (request ''/Hello'' None, fresh_response)))
   \<and> CompleteInvoked \<in> set (trace (apiHandler rethrowing_server (resolved_hello (named ''TsrpcError''))))
   \<and> CompleteInvoked \<in> set (trace (apiHandler
        ((hello_server False)\<lparr>onApiComplete := Some noop_hook\<rparr>) (resolved_hello (named ''Error''))))"
proof (intro conjI)
  have c: "onApiComplete rethrowing_server = Some noop_hook"
    by (simp add: rethrowing_server_def)
  show "CompleteInvoked \<notin> set (trace (apiHandler rethrowing_server
          (request ''/Hello'' None, fresh_response)))"
    using onApiComplete_invocation [OF c, of "(request ''/Hello'' None, fresh_response)"]
    by (simp add: request_def)
  have r: "reaches_handler rethrowing_server (resolved_hello (named ''TsrpcError''))
             \<lparr>protocol = PtlHello, handler = ApiHelloWorld, reqValidator = validate_ReqHello\<rparr>"
    by (simp add: rethrowing_server_def hello_eval)
  have "completion_reached rethrowing_server
          (handler \<lparr>protocol = PtlHello, handler = ApiHelloWorld, reqValidator = validate_ReqHello\<rparr>
             (resolved_hello (named ''TsrpcError'')))"
    by (simp add: rethrowing_server_def hello_eval)
  with r show "CompleteInvoked \<in> set (trace (apiHandler rethrowing_server
                 (resolved_hello (named ''TsrpcError''))))"
    using onApiComplete_invocation [OF c, of "resolved_hello (named ''TsrpcError'')"
        "\<lparr>protocol = PtlHello, handler = ApiHelloWorld, reqValidator = validate_ReqHello\<rparr>"]
    by blast
next
  let ?srv = "(hello_server False)\<lparr>onApiComplete := Some noop_hook\<rparr>"
  have c: "onApiComplete ?srv = Some noop_hook"
    by simp
  have "reaches_handler ?srv (resolved_hello (named ''Error''))
          \<lparr>protocol = PtlHello, handler = ApiHelloWorld, reqValidator = validate_ReqHello\<rparr>"
    by (simp add: hello_eval)
  moreover have "onUnhandledApiError ?srv = default_onUnhandledApiError"
    by (simp add: hello_server_eq)
  ultimately show "CompleteInvoked \<in> set (trace (apiHandler ?srv (resolved_hello (named ''Error''))))"
    using onApiComplete_invocation [OF c, of "resolved_hello (named ''Error'')"
        "\<lparr>protocol = PtlHello, handler = ApiHelloWorld, reqValidator = validate_ReqHello\<rparr>"]
    by blast
qed

text \<open>
  C9 as stated fails when the unhandled-error hook itself throws: the handler was invoked
  and raised an error, a completion callback is set, and it is not invoked.
\<close>

theorem onApiComplete_skipped_counterexample:
  "onApiComplete rethrowing_server = Some noop_hook
   \<and> HandlerInvoked \<in> set (trace (handleRequest rethrowing_server
        (request ''/Hello'' (Some (named ''Error'')))))
   \<and> CompleteInvoked \<notin> set (trace (handleRequest rethrowing_server
        (request ''/Hello'' (Some (named ''Error'')))))
   \<and> uncaught (handleRequest rethrowing_server (request ''/Hello'' (Some (named ''Error'')))) =
       Some (JsError ''Error'')"
  by (simp add: rethrowing_server_def rethrow_hook_def noop_hook_def hello_eval)

section \<open>What reaches the client\<close>
















section \<open>Addressing\<close>

lemma callOnApiComplete_config:
  "callOnApiComplete (srv\<lparr>config := c\<rparr>) rr tr = callOnApiComplete srv rr tr"
  by (simp add: callOnApiComplete_def)

lemma catchHandler_config:
  "catchHandler (srv\<lparr>config := c\<rparr>) e tr = catchHandler srv e tr"
  by (simp add: catchHandler_def callOnApiComplete_config
      cong: option.case_cong thrown.case_cong)

lemma apiHandler_hideApiPath:
  "apiHandler (srv\<lparr>config := (config srv)\<lparr>hideApiPath := b\<rparr>\<rparr>) rr = apiHandler srv rr"
  by (simp add: apiHandler_def catchHandler_config cong: option.case_cong if_cong)

lemma hidden_path_resolution:
  assumes "hideApiPath (config srv)" and "args req = Some a" and "tsrpc_url a = Some u"
    and "u \<noteq> []"
  shows "checkProtocolRegistered srv (req, res) =
           (req\<lparr>args := Some (a\<lparr>tsrpc_url := None\<rparr>), rpcUrl := Some u,
                rpcPtl := map_option protocol (implementedUrl srv u)\<rparr>, res)"
  using assms
  by (simp add: checkProtocolRegistered_def lookupRpcPtl_def split: option.splits)

lemma path_resolution:
  assumes "\<not> hideApiPath (config srv)" and "args req = Some a"
    and "\<not> truthy_string (tsrpc_url a)"
    and "path req = urlRootPath (config srv) @ rest"
  shows "checkProtocolRegistered srv (req, res) =
           (req\<lparr>rpcUrl := Some (''/'' @ rest),
                rpcPtl := map_option protocol (implementedUrl srv (''/'' @ rest))\<rparr>, res)"
  using assms
  by (simp add: checkProtocolRegistered_def lookupRpcPtl_def startsWith_def split: option.splits)

text \<open>
  The part of C4 that holds: with a decoded body and no user middleware, a field-addressed
  server answers a body without the reserved field, and a path-addressed server a body
  whose reserved field is a non-empty string, with the error \<^verbatim>\<open>REQ_CANT_BE_RESOLVED\<close>,
  whatever else the request holds.
\<close>

lemma addressing_mismatch:
  assumes "args req = Some a" and "routerBeforeApiHandler srv = []"
    and "hideApiPath (config srv) \<and> tsrpc_url a = None \<or>
         \<not> hideApiPath (config srv) \<and> truthy_string (tsrpc_url a)"
  shows "\<exists>m. sent (snd (final (handleRequest srv req))) =
           [ErrorEnvelope m (JStr ''REQ_CANT_BE_RESOLVED'')]"
  using assms
  by (auto simp: handleRequest_def checkProtocolRegistered_def set_apiPreCheckError_def
      apiHandler_def fresh_response_def res_error_def)

text \<open>
  C4 at the input where the code departs from it: a path-addressed server receives a body
  whose reserved field is present and holds the empty string. The middleware tests the
  field for truthiness, so no pre-check error is set and the request is dispatched by its
  URL path.
\<close>

theorem empty_reserved_field_dispatched:
  "tsrpc_url (named_at [] ''world'') \<noteq> None
   \<and> apiPreCheckError (snd (checkProtocolRegistered (hello_server False)
        (request ''/Hello'' (Some (named_at [] ''world'')), fresh_response))) = None
   \<and> sent (snd (final (handleRequest (hello_server False)
        (request ''/Hello'' (Some (named_at [] ''world'')))))) =
       [SuccEnvelope (JObj [(''reply'', JStr ''Hello, world!'')])]"
  by (simp add: hello_eval)

text \<open>
  C8, as the code has it, with the reserved field under its name \<^verbatim>\<open>__tsrpc_url__\<close>. On a
  field-addressed server a body with the reserved field \<^verbatim>\<open>/rest\<close> resolves that path; the
  field is removed from the arguments that the validator and the handler receive; and the
  whole outcome is the one of the path-addressed server for the same request without the
  field, posted to the URL of that path. For the Hello protocol and the body
  \<^verbatim>\<open>{__tsrpc_url__: "/Hello", name: "world"}\<close>, posted to any URL, the answer is the
  success envelope \<^verbatim>\<open>{reply: "Hello, world!"}\<close> of the path-addressed request.
\<close>

theorem hidden_path_as_path_addressed:
  "(hideApiPath (config srv) \<and> args req = Some a \<and> tsrpc_url a = Some (''/'' @ rest) \<and>
      path req = urlRootPath (config srv) @ rest \<longrightarrow>
      rpcUrl (fst (checkProtocolRegistered srv (req, fresh_response))) = Some (''/'' @ rest) \<and>
      args (fst (checkProtocolRegistered srv (req, fresh_response))) =
        Some (a\<lparr>tsrpc_url := None\<rparr>) \<and>
      handleRequest srv req =
        handleRequest (srv\<lparr>config := (config srv)\<lparr>hideApiPath := False\<rparr>\<rparr>)
          (req\<lparr>args := Some (a\<lparr>tsrpc_url := None\<rparr>)\<rparr>))
   \<and> sent (snd (final (handleRequest (hello_server True)
        (request p (Some (named_at ''/Hello'' ''world'')))))) =
       [SuccEnvelope (JObj [(''reply'', JStr ''Hello, world!'')])]
   \<and> sent (snd (final (handleRequest (hello_server False)
        (request ''/Hello'' (Some (named ''world'')))))) =
       [SuccEnvelope (JObj [(''reply'', JStr ''Hello, world!'')])]"
proof (intro conjI impI)
  assume h: "hideApiPath (config srv) \<and> args req = Some a \<and> tsrpc_url a = Some (''/'' @ rest) \<and>
      path req = urlRootPath (config srv) @ rest"
  let ?srv = "srv\<lparr>config := (config srv)\<lparr>hideApiPath := False\<rparr>\<rparr>"
  let ?req = "req\<lparr>args := Some (a\<lparr>tsrpc_url := None\<rparr>)\<rparr>"
  from h have hid: "checkProtocolRegistered srv (req, fresh_response) =
      (req\<lparr>args := Some (a\<lparr>tsrpc_url := None\<rparr>), rpcUrl := Some (''/'' @ rest),
           rpcPtl := map_option protocol (implementedUrl srv (''/'' @ rest))\<rparr>, fresh_response)"
    by (simp add: hidden_path_resolution)
  from hid show "rpcUrl (fst (checkProtocolRegistered srv (req, fresh_response))) =
      Some (''/'' @ rest)"
    by simp
  from hid show "args (fst (checkProtocolRegistered srv (req, fresh_response))) =
      Some (a\<lparr>tsrpc_url := None\<rparr>)"
    by simp
  have "checkProtocolRegistered ?srv (?req, fresh_response) =
      (?req\<lparr>rpcUrl := Some (''/'' @ rest),
            rpcPtl := map_option protocol (implementedUrl ?srv (''/'' @ rest))\<rparr>, fresh_response)"
    using h path_resolution [of ?srv ?req "a\<lparr>tsrpc_url := None\<rparr>" rest fresh_response]
    by simp
  with hid have "checkProtocolRegistered ?srv (?req, fresh_response) =
      checkProtocolRegistered srv (req, fresh_response)"
    by simp
  then show "handleRequest srv req = handleRequest ?srv ?req"
    by (simp add: handleRequest_def apiHandler_hideApiPath Let_def)
next
  show "sent (snd (final (handleRequest (hello_server True)
        (request p (Some (named_at ''/Hello'' ''world'')))))) =
       [SuccEnvelope (JObj [(''reply'', JStr ''Hello, world!'')])]"
    by (simp add: hello_eval)
next
  show "sent (snd (final (handleRequest (hello_server False)
        (request ''/Hello'' (Some (named ''world'')))))) =
       [SuccEnvelope (JObj [(''reply'', JStr ''Hello, world!'')])]"
    by (simp add: hello_eval)
qed

theorem hidden_path_as_path_addressed_witness:
  "handleRequest (hello_server True) (request ''/Hello'' (Some (named_at ''/Hello'' ''world''))) =
     handleRequest (hello_server False) (request ''/Hello'' (Some (named ''world'')))
   \<and> args (fst (checkProtocolRegistered (hello_server True)
        (request ''/Hello'' (Some (named_at ''/Hello'' ''world'')), fresh_response))) =
       Some (named ''world'')"
proof -
  have s: "(hello_server True)\<lparr>config := (config (hello_server True))\<lparr>hideApiPath := False\<rparr>\<rparr> =
             hello_server False"
    by (simp add: hello_server_eq)
  have r: "(request ''/Hello'' (Some (named_at ''/Hello'' ''world'')))
             \<lparr>args := Some (named ''world'')\<rparr> =
           request ''/Hello'' (Some (named ''world''))"
    by (simp add: request_def)
  have n: "(named_at ''/Hello'' ''world'')\<lparr>tsrpc_url := None\<rparr> = named ''world''"
    by (simp add: named_def named_at_def)
  have h: "hideApiPath (config (hello_server True)) \<and>
           args (request ''/Hello'' (Some (named_at ''/Hello'' ''world''))) =
             Some (named_at ''/Hello'' ''world'') \<and>
           tsrpc_url (named_at ''/Hello'' ''world'') = Some (''/'' @ ''Hello'') \<and>
           path (request ''/Hello'' (Some (named_at ''/Hello'' ''world''))) =
             urlRootPath (config (hello_server True)) @ ''Hello''"
    by (simp add: hello_server_eq hello_config_def request_def named_at_def)
  from hidden_path_as_path_addressed
    [of "hello_server True" "request ''/Hello'' (Some (named_at ''/Hello'' ''world''))"
      "named_at ''/Hello'' ''world''" "''Hello''" "''/Hello''"] h
  show ?thesis
    unfolding s n r by blast
qed

text \<open>
  C8 as stated names the reserved field \<^verbatim>\<open>__rpc_path__\<close>. The code reads
  \<^verbatim>\<open>__tsrpc_url__\<close>: a body \<^verbatim>\<open>{__rpc_path__: "/Hello", name: "world"}\<close> has no reserved field
  and a field-addressed server answers it with \<^verbatim>\<open>REQ_CANT_BE_RESOLVED\<close>.
\<close>

theorem rpc_path_field_counterexample:
  "sent (snd (final (handleRequest (hello_server True)
      (request ''/Hello''
         (Some \<lparr>tsrpc_url = None,
                members = [(''__rpc_path__'', JStr ''/Hello''), (''name'', JStr ''world'')]\<rparr>))))) =
     [ErrorEnvelope ''HideApiPath is enabled, set it to true too in your client config.''
        (JStr ''REQ_CANT_BE_RESOLVED'')]"
  by (simp add: hello_eval)

end
